theory Spec2Isabelle
  imports Main "HOL-Library.Char_ord" "HOL-Library.List_Lexorder" "HOL-Library.Multiset"
begin

section \<open>JavaScript values\<close>

text \<open>
  The numbers the engine reads are millisecond timestamps and token counters. A finite
  number is modelled as an integer (the data model of the artifacts has integers only, and
  all sums are taken to stay in the range where JavaScript adds integers exactly); the
  three non-finite numbers are kept, since the code tests for them.
\<close>

datatype jsnum = Fin int | NaN | PosInf | NegInf

text \<open>
  A value of type \<open>unknown\<close>: what \<open>JSON.parse\<close> returns, plus \<open>undefined\<close> for
  an absent property. An object is the list of its properties in insertion order.
\<close>

datatype json =
    JUndefined
  | JNull
  | JBool bool
  | JNum jsnum
  | JStr string
  | JArr "json list"
  | JObj "(string \<times> json) list"

text \<open>Property access \<open>v.k\<close> for the named keys the code reads; an array has none of them.\<close>

fun getProp :: "json \<Rightarrow> string \<Rightarrow> json" where
  "getProp (JObj kvs) k = (case map_of kvs k of Some v \<Rightarrow> v | None \<Rightarrow> JUndefined)"
| "getProp _ k = JUndefined"


text \<open>\<open>String.prototype.trim\<close>, on the ASCII white space characters.\<close>

definition isSpace :: "char \<Rightarrow> bool" where
  "isSpace c = (c = CHR '' '' \<or> c = CHR 0x09 \<or> c = CHR 0x0A \<or> c = CHR 0x0B
                \<or> c = CHR 0x0C \<or> c = CHR 0x0D)"

definition trim :: "string \<Rightarrow> string" where
  "trim s = rev (dropWhile isSpace (rev (dropWhile isSpace s)))"

section \<open>Token usage\<close>

record TokenUsageTotals =
  input :: int
  "output" :: int
  reasoning :: int
  cacheRead :: int
  cacheWrite :: int
  total :: int

text \<open>A row has the six counters of the totals and the model name.\<close>

record TokenUsageRow = TokenUsageTotals +
  model :: string

record TokenUsagePayload =
  rows :: "TokenUsageRow list"
  totals :: TokenUsageTotals



fun isRecord :: "json \<Rightarrow> bool" where
  "isRecord (JObj _) = True"
| "isRecord (JArr _) = True"
| "isRecord _ = False"









text \<open>
  \<open>Array.prototype.sort\<close> with a comparator is a stable sort; it is modelled as the stable
  insertion sort. \<open>String.prototype.localeCompare\<close> is a function of the host, the
  parameter \<open>lc\<close> below.
\<close>

fun insertSorted :: "('a \<Rightarrow> 'a \<Rightarrow> int) \<Rightarrow> 'a \<Rightarrow> 'a list \<Rightarrow> 'a list" where
  "insertSorted cmp x [] = [x]"
| "insertSorted cmp x (y # ys) =
     (if cmp x y \<le> 0 then x # y # ys else y # insertSorted cmp x ys)"

fun jsSort :: "('a \<Rightarrow> 'a \<Rightarrow> int) \<Rightarrow> 'a list \<Rightarrow> 'a list" where
  "jsSort cmp [] = []"
| "jsSort cmp (x # xs) = insertSorted cmp x (jsSort cmp xs)"








section \<open>The host: file system, paths, dates\<close>

text \<open>
  A call of the host that can throw returns \<open>Inl\<close> of the exception; a \<open>try\<close>/\<open>catch\<close>
  of the source is the case distinction on that result. The text of a file is
  represented by what \<open>JSON.parse\<close> makes of it.
\<close>

datatype exn = FsError | SyntaxError | RangeError

datatype content = Parsed json | Malformed

record FsLike =
  existsSync :: "string \<Rightarrow> bool"
  readdirSync :: "string \<Rightarrow> exn + string list"
  isDirectory :: "string \<Rightarrow> bool"
  statSync :: "string \<Rightarrow> exn + int"
  readFileSync :: "string \<Rightarrow> exn + content"

text \<open>
  The functions of modules that are not among the sources at hand (\<open>getMessageDir\<close> of
  \<open>./session\<close>, \<open>pickLatestModelString\<close> of \<open>./model\<close>) and of the JavaScript runtime
  (\<open>localeCompare\<close>, \<open>Date.prototype.toISOString\<close> on a valid date) are fields of the
  environment.
\<close>

record Env = FsLike +
  getMessageDir :: "string \<Rightarrow> string \<Rightarrow> string"
  pickLatestModelString :: "json list \<Rightarrow> string option"
  localeCompare :: "string \<Rightarrow> string \<Rightarrow> int"
  toISOString :: "int \<Rightarrow> string"

record OpenCodeStorageRoots =
  session :: string
  message :: string
  part :: string

definition JSON_parse :: "content \<Rightarrow> exn + json" where
  "JSON_parse c = (case c of Parsed v \<Rightarrow> Inr v | Malformed \<Rightarrow> Inl SyntaxError)"

text \<open>\<open>path.join\<close> of a directory and a name (no normalisation of dots is modelled).\<close>

definition pathJoin :: "string \<Rightarrow> string \<Rightarrow> string" where
  "pathJoin dir f = dir @ ''/'' @ f"

definition endsWith :: "string \<Rightarrow> string \<Rightarrow> bool" where
  "endsWith s suffix =
     (length suffix \<le> length s \<and> drop (length s - length suffix) s = suffix)"

text \<open>JavaScript truthiness, and the two \<open>typeof\<close> tests the readers make.\<close>

fun truthy :: "json \<Rightarrow> bool" where
  "truthy JUndefined = False"
| "truthy JNull = False"
| "truthy (JBool b) = b"
| "truthy (JNum n) = (n \<noteq> Fin 0 \<and> n \<noteq> NaN)"
| "truthy (JStr s) = (s \<noteq> [])"
| "truthy (JArr _) = True"
| "truthy (JObj _) = True"

fun isString :: "json \<Rightarrow> bool" where
  "isString (JStr _) = True"
| "isString _ = False"

text \<open>
  A timestamp: \<open>typeof v === "number"\<close>. The timestamps of the artifacts are finite, and a
  \<open>time.created\<close> that is present is a number; the model reads anything else as absent.
\<close>

fun numberOf :: "json \<Rightarrow> int option" where
  "numberOf (JNum (Fin n)) = Some n"
| "numberOf _ = None"

definition created :: "json \<Rightarrow> int option" where
  "created m = numberOf (getProp (getProp m ''time'') ''created'')"

definition createdOr0 :: "json \<Rightarrow> int" where
  "createdOr0 m = (case created m of Some t \<Rightarrow> t | None \<Rightarrow> 0)"

text \<open>\<open>String(m.id)\<close>; the readers keep only values whose \<open>id\<close> is a string.\<close>

definition idString :: "json \<Rightarrow> string" where
  "idString m = (case getProp m ''id'' of JStr s \<Rightarrow> s | _ \<Rightarrow> [])"

section \<open>Reading artifacts\<close>

definition DESCRIPTION_MAX :: nat where "DESCRIPTION_MAX = 120"
definition AGENT_MAX :: nat where "AGENT_MAX = 30"

fun clampString :: "json \<Rightarrow> nat \<Rightarrow> string option" where
  "clampString (JStr v) maxLen =
     (let s = trim v in
      if s = [] then None
      else Some (if length s \<le> maxLen then s else take maxLen s))"
| "clampString _ maxLen = None"

definition readJsonFile :: "'a FsLike_scheme \<Rightarrow> string \<Rightarrow> json" where
  "readJsonFile fsLike filePath =
     (case readFileSync fsLike filePath of
        Inl _ \<Rightarrow> JNull
      | Inr c \<Rightarrow> (case JSON_parse c of Inl _ \<Rightarrow> JNull | Inr v \<Rightarrow> v))"

definition listJsonFiles :: "'a FsLike_scheme \<Rightarrow> string \<Rightarrow> string list" where
  "listJsonFiles fsLike dir =
     (case readdirSync fsLike dir of
        Inl _ \<Rightarrow> []
      | Inr fs \<Rightarrow> filter (\<lambda>f. endsWith f ''.json'') fs)"

definition isToolPart :: "json \<Rightarrow> bool" where
  "isToolPart p =
     (truthy p \<and> getProp p ''type'' = JStr ''tool'' \<and> isString (getProp p ''tool'')
      \<and> truthy (getProp p ''state'') \<and> isRecord (getProp p ''state''))"

definition readToolPartsForMessage ::
  "'a FsLike_scheme \<Rightarrow> OpenCodeStorageRoots \<Rightarrow> string \<Rightarrow> json list"
where
  "readToolPartsForMessage fsLike storage messageID =
     (let partDir = pathJoin (part storage) messageID in
      if \<not> existsSync fsLike partDir then []
      else filter isToolPart
             (map (\<lambda>f. readJsonFile fsLike (pathJoin partDir f))
                  (sort (listJsonFiles fsLike partDir))))"

text \<open>The variable \<open>files\<close> of \<open>readRecentMessageMetas\<close>: names with their \<open>mtime\<close>.\<close>

definition recentFiles :: "'a FsLike_scheme \<Rightarrow> string \<Rightarrow> nat \<Rightarrow> (string \<times> int) list" where
  "recentFiles fsLike messageDir maxMessages =
     take maxMessages
       (jsSort (\<lambda>a b. snd b - snd a)
          (map (\<lambda>f. (f, case statSync fsLike (pathJoin messageDir f) of
                            Inl _ \<Rightarrow> 0
                          | Inr mtimeMs \<Rightarrow> mtimeMs))
               (listJsonFiles fsLike messageDir)))"

definition hasStringId :: "json \<Rightarrow> bool" where
  "hasStringId meta = (truthy meta \<and> isString (getProp meta ''id''))"

definition readRecentMessageMetas :: "'a FsLike_scheme \<Rightarrow> string \<Rightarrow> nat \<Rightarrow> json list" where
  "readRecentMessageMetas fsLike messageDir maxMessages =
     (if messageDir = [] \<or> \<not> existsSync fsLike messageDir then []
      else filter hasStringId
             (map (\<lambda>item. readJsonFile fsLike (pathJoin messageDir (fst item)))
                  (recentFiles fsLike messageDir maxMessages)))"

definition readAllSessionMetas :: "'a FsLike_scheme \<Rightarrow> string \<Rightarrow> json list" where
  "readAllSessionMetas fsLike sessionStorage =
     (if \<not> existsSync fsLike sessionStorage then []
      else (case readdirSync fsLike sessionStorage of
              Inl _ \<Rightarrow> []
            | Inr projectDirs \<Rightarrow>
                concat (map (\<lambda>d.
                  let projectPath = pathJoin sessionStorage d in
                  filter hasStringId
                    (map (\<lambda>file. readJsonFile fsLike (pathJoin projectPath file))
                         (listJsonFiles fsLike projectPath)))
                  (filter (\<lambda>d. isDirectory fsLike (pathJoin sessionStorage d)) projectDirs))))"

section \<open>Correlating a delegation with its child session\<close>

definition sessionCompare :: "(string \<Rightarrow> string \<Rightarrow> int) \<Rightarrow> json \<Rightarrow> json \<Rightarrow> int" where
  "sessionCompare lc a b =
     (let at = createdOr0 a; bt = createdOr0 b in
      if at \<noteq> bt then bt - at else lc (idString a) (idString b))"

definition titledCandidates :: "string \<Rightarrow> json list \<Rightarrow> string \<Rightarrow> string \<Rightarrow> int \<Rightarrow> json list" where
  "titledCandidates prefix allSessionMetas parentSessionId description startedAt =
     (let title = prefix @ description;
          windowStart = startedAt;
          windowEnd = startedAt + 60000
      in filter (\<lambda>m. getProp m ''parentID'' = JStr parentSessionId
                    \<and> getProp m ''title'' = JStr title
                    \<and> (case created m of
                          None \<Rightarrow> False
                        | Some c \<Rightarrow> c \<ge> windowStart \<and> c \<le> windowEnd))
           allSessionMetas)"

definition firstId :: "json list \<Rightarrow> string option" where
  "firstId candidates =
     (case candidates of
        [] \<Rightarrow> None
      | c # _ \<Rightarrow> (case getProp c ''id'' of JStr s \<Rightarrow> Some s | _ \<Rightarrow> None))"

definition findBackgroundSessionId ::
  "(string \<Rightarrow> string \<Rightarrow> int) \<Rightarrow> json list \<Rightarrow> string \<Rightarrow> string \<Rightarrow> int \<Rightarrow> string option"
where
  "findBackgroundSessionId lc allSessionMetas parentSessionId description startedAt =
     firstId (jsSort (sessionCompare lc)
       (titledCandidates ''Background: '' allSessionMetas parentSessionId description startedAt))"

definition findTaskSessionId ::
  "(string \<Rightarrow> string \<Rightarrow> int) \<Rightarrow> json list \<Rightarrow> string \<Rightarrow> string \<Rightarrow> int \<Rightarrow> string option"
where
  "findTaskSessionId lc allSessionMetas parentSessionId description startedAt =
     firstId (jsSort (sessionCompare lc)
       (titledCandidates ''Task: '' allSessionMetas parentSessionId description startedAt))"

section \<open>Background task rows\<close>

datatype TaskStatus = Queued | Running | Completed | Error | Unknown

record BackgroundTaskRow =
  rowId :: json
  description :: string
  agent :: string
  status :: TaskStatus
  toolCalls :: "nat option"
  lastTool :: "string option"
  lastModel :: "string option"
  timeline :: string
  sessionId :: "string option"

record SessionStats =
  statToolCalls :: nat
  statLastTool :: "string option"
  lastUpdateAt :: "int option"

definition messageCompare :: "(string \<Rightarrow> string \<Rightarrow> int) \<Rightarrow> json \<Rightarrow> json \<Rightarrow> int" where
  "messageCompare lc a b =
     (let at = createdOr0 a; bt = createdOr0 b in
      if at \<noteq> bt then at - bt else lc (idString a) (idString b))"

definition toolName :: "json \<Rightarrow> string option" where
  "toolName p = (case getProp p ''tool'' of JStr s \<Rightarrow> Some s | _ \<Rightarrow> None)"

text \<open>The body of the loop over \<open>ordered\<close> in \<open>deriveBackgroundSessionStats\<close>.\<close>

definition statsStep ::
  "'a FsLike_scheme \<Rightarrow> OpenCodeStorageRoots \<Rightarrow> SessionStats \<Rightarrow> json \<Rightarrow> SessionStats"
where
  "statsStep fsLike storage st meta =
     (let st1 = (case created meta of
                   Some c \<Rightarrow> st\<lparr>lastUpdateAt := Some c\<rparr>
                 | None \<Rightarrow> st);
          parts = readToolPartsForMessage fsLike storage (idString meta)
      in foldl (\<lambda>s p. s\<lparr>statToolCalls := statToolCalls s + 1, statLastTool := toolName p\<rparr>)
               st1 parts)"

definition deriveBackgroundSessionStats ::
  "'a Env_scheme \<Rightarrow> OpenCodeStorageRoots \<Rightarrow> json list \<Rightarrow> SessionStats"
where
  "deriveBackgroundSessionStats env storage metas =
     (let ordered = jsSort (messageCompare (localeCompare env)) metas
      in foldl (statsStep env storage)
               \<lparr>statToolCalls = 0, statLastTool = None, lastUpdateAt = None\<rparr> ordered)"

text \<open>
  The regular expression \<open>/\.\d{3}Z$/\<close>: a dot, three digits and \<open>Z\<close> at the end of the
  string, replaced by \<open>Z\<close>.
\<close>

definition isDigit :: "char \<Rightarrow> bool" where
  "isDigit c = (c \<in> set ''0123456789'')"

definition stripMillis :: "string \<Rightarrow> string" where
  "stripMillis isoText =
     (let n = length isoText; t = drop (n - 5) isoText in
      if n \<ge> 5 \<and> t ! 0 = CHR ''.'' \<and> isDigit (t ! 1) \<and> isDigit (t ! 2) \<and> isDigit (t ! 3)
         \<and> t ! 4 = CHR ''Z''
      then take (n - 5) isoText @ ''Z''
      else isoText)"

text \<open>
  \<open>new Date(ts).toISOString()\<close> throws a \<open>RangeError\<close> when \<open>ts\<close> is not a valid time
  value, which for a finite \<open>ts\<close> means more than 8.64e15 ms away from the epoch.
\<close>

definition formatIsoNoMs :: "'a Env_scheme \<Rightarrow> int \<Rightarrow> exn + string" where
  "formatIsoNoMs env ts =
     (if \<bar>ts\<bar> \<le> 8640000000000000 then Inr (stripMillis (toISOString env ts))
      else Inl RangeError)"

function decimal :: "nat \<Rightarrow> string" where
  "decimal n = (if n < 10 then [''0123456789'' ! n] else decimal (n div 10) @ [''0123456789'' ! (n mod 10)])"
  by pat_completeness auto
termination
  by (relation "measure id") auto

declare decimal.simps [simp del]

definition formatElapsed :: "int \<Rightarrow> string" where
  "formatElapsed ms =
     (let totalSeconds = nat (max 0 (ms div 1000));
          seconds = totalSeconds mod 60;
          totalMinutes = totalSeconds div 60;
          minutes = totalMinutes mod 60;
          totalHours = totalMinutes div 60;
          hours = totalHours mod 24;
          days = totalHours div 24
      in if days > 0 then (if hours > 0 then decimal days @ ''d'' @ decimal hours @ ''h''
                           else decimal days @ ''d'')
         else if totalHours > 0 then (if minutes > 0 then decimal totalHours @ ''h'' @ decimal minutes @ ''m''
                                      else decimal totalHours @ ''h'')
         else if totalMinutes > 0 then (if seconds > 0 then decimal totalMinutes @ ''m'' @ decimal seconds @ ''s''
                                        else decimal totalMinutes @ ''m'')
         else decimal seconds @ ''s'')"

definition formatTimeline :: "'a Env_scheme \<Rightarrow> int option \<Rightarrow> int \<Rightarrow> exn + string" where
  "formatTimeline env startAt endAtMs =
     (case startAt of
        None \<Rightarrow> Inr []
      | Some s \<Rightarrow>
          (case formatIsoNoMs env s of
             Inl e \<Rightarrow> Inl e
           | Inr start \<Rightarrow> Inr (start @ '': '' @ formatElapsed (endAtMs - s))))"

text \<open>
  The three caches of \<open>deriveBackgroundTasks\<close> memoise reads of a file system that does not
  change during the pass; the model reads directly.
\<close>

definition readBackgroundMetas :: "'a Env_scheme \<Rightarrow> OpenCodeStorageRoots \<Rightarrow> string \<Rightarrow> json list" where
  "readBackgroundMetas env storage sid =
     readRecentMessageMetas env (getMessageDir env (message storage) sid) 200"

definition readBackgroundStats :: "'a Env_scheme \<Rightarrow> OpenCodeStorageRoots \<Rightarrow> string \<Rightarrow> SessionStats" where
  "readBackgroundStats env storage sid =
     deriveBackgroundSessionStats env storage (readBackgroundMetas env storage sid)"

definition readBackgroundModel :: "'a Env_scheme \<Rightarrow> OpenCodeStorageRoots \<Rightarrow> string \<Rightarrow> string option" where
  "readBackgroundModel env storage sid =
     pickLatestModelString env (readBackgroundMetas env storage sid)"

text \<open>A session id is linked when it is truthy: neither \<open>null\<close> nor the empty string.\<close>

definition linked :: "string option \<Rightarrow> bool" where
  "linked backgroundSessionId = (backgroundSessionId \<noteq> None \<and> backgroundSessionId \<noteq> Some [])"

text \<open>The status, as the source derives it (\<open>stats.lastUpdateAt &&\<close> tests for a truthy number).\<close>

definition taskStatus :: "string option \<Rightarrow> SessionStats \<Rightarrow> int \<Rightarrow> TaskStatus" where
  "taskStatus backgroundSessionId stats nowMs =
     (if \<not> linked backgroundSessionId then Queued
      else if (case lastUpdateAt stats of
                 None \<Rightarrow> False
               | Some t \<Rightarrow> t \<noteq> 0 \<and> nowMs - t \<le> 15000) then Running
      else if statToolCalls stats > 0 then Completed
      else Unknown)"

text \<open>From the statistics of the linked session to the row that is pushed.\<close>

definition buildRow ::
  "'a Env_scheme \<Rightarrow> OpenCodeStorageRoots \<Rightarrow> int \<Rightarrow> json \<Rightarrow> string \<Rightarrow> string \<Rightarrow> int
     \<Rightarrow> string option \<Rightarrow> exn + BackgroundTaskRow"
where
  "buildRow env storage nowMs p desc ag startedAt backgroundSessionId =
     (let stats = (if linked backgroundSessionId
                   then readBackgroundStats env storage (the backgroundSessionId)
                   else \<lparr>statToolCalls = 0, statLastTool = None, lastUpdateAt = Some startedAt\<rparr>);
          lm = (if linked backgroundSessionId
                then readBackgroundModel env storage (the backgroundSessionId)
                else None);
          st = taskStatus backgroundSessionId stats nowMs;
          timelineEndMs = (if st = Completed
                           then (case lastUpdateAt stats of Some t \<Rightarrow> t | None \<Rightarrow> nowMs)
                           else nowMs)
      in case (if st = Unknown then Inr [] else formatTimeline env (Some startedAt) timelineEndMs) of
           Inl e \<Rightarrow> Inl e
         | Inr tline \<Rightarrow>
             Inr \<lparr>rowId = getProp p ''callID'',
                  description = desc,
                  agent = ag,
                  status = st,
                  toolCalls = (if linked backgroundSessionId then Some (statToolCalls stats) else None),
                  lastTool = statLastTool stats,
                  lastModel = lm,
                  timeline = tline,
                  sessionId = backgroundSessionId\<rparr>)"

text \<open>
  The session of a synchronous task: the resumed session when its message directory has
  entries, else the session titled \<open>Background: \<dots>\<close>, else the one titled \<open>Task: \<dots>\<close>.
  The \<open>readdirSync\<close> of the resumed directory is not inside a \<open>try\<close>.
\<close>

definition findSyncSessionId ::
  "'a Env_scheme \<Rightarrow> OpenCodeStorageRoots \<Rightarrow> json list \<Rightarrow> string \<Rightarrow> json \<Rightarrow> string \<Rightarrow> int
     \<Rightarrow> exn + string option"
where
  "findSyncSessionId env storage allSessionMetas mainSessionId inp desc startedAt =
     (let fallback =
            (case findBackgroundSessionId (localeCompare env) allSessionMetas mainSessionId desc startedAt of
               Some s \<Rightarrow> (if s \<noteq> [] then Some s
                          else findTaskSessionId (localeCompare env) allSessionMetas mainSessionId desc startedAt)
             | None \<Rightarrow> findTaskSessionId (localeCompare env) allSessionMetas mainSessionId desc startedAt)
      in case getProp inp ''resume'' of
           JStr resume \<Rightarrow>
             (if trim resume \<noteq> [] then
                (let resumeMessageDir = getMessageDir env (message storage) (trim resume) in
                 if existsSync env resumeMessageDir then
                   (case readdirSync env resumeMessageDir of
                      Inl e \<Rightarrow> Inl e
                    | Inr entries \<Rightarrow> if length entries > 0 then Inr (Some (trim resume)) else Inr fallback)
                 else Inr fallback)
              else Inr fallback)
         | _ \<Rightarrow> Inr fallback)"

text \<open>One part of a message: \<open>Inr None\<close> is a \<open>continue\<close>, \<open>Inr (Some row)\<close> a push.\<close>

definition delegateRow ::
  "'a Env_scheme \<Rightarrow> OpenCodeStorageRoots \<Rightarrow> string \<Rightarrow> int \<Rightarrow> json list \<Rightarrow> int \<Rightarrow> json
     \<Rightarrow> exn + BackgroundTaskRow option"
where
  "delegateRow env storage mainSessionId nowMs allSessionMetas startedAt p =
     (if getProp p ''tool'' \<noteq> JStr ''delegate_task'' then Inr None
      else if \<not> truthy (getProp p ''state'') \<or> \<not> isRecord (getProp p ''state'') then Inr None
      else
        (let raw = getProp (getProp p ''state'') ''input'';
             inp = (if raw = JUndefined \<or> raw = JNull then JObj [] else raw)
         in if \<not> isRecord inp then Inr None
            else (case getProp inp ''run_in_background'' of
                    JBool runInBackground \<Rightarrow>
                      (case clampString (getProp inp ''description'') DESCRIPTION_MAX of
                         None \<Rightarrow> Inr None
                       | Some desc \<Rightarrow>
                           (let subagentType = clampString (getProp inp ''subagent_type'') AGENT_MAX;
                                category = clampString (getProp inp ''category'') AGENT_MAX;
                                ag = (case subagentType of
                                        Some s \<Rightarrow> s
                                      | None \<Rightarrow> (case category of
                                                    Some c \<Rightarrow> ''sisyphus-junior ('' @ c @ '')''
                                                  | None \<Rightarrow> ''unknown''))
                            in case (if runInBackground
                                     then Inr (findBackgroundSessionId (localeCompare env) allSessionMetas
                                                 mainSessionId desc startedAt)
                                     else findSyncSessionId env storage allSessionMetas mainSessionId
                                            inp desc startedAt) of
                                 Inl e \<Rightarrow> Inl e
                               | Inr backgroundSessionId \<Rightarrow>
                                   (case buildRow env storage nowMs p desc ag startedAt backgroundSessionId of
                                      Inl e \<Rightarrow> Inl e
                                    | Inr row \<Rightarrow> Inr (Some row))))
                  | _ \<Rightarrow> Inr None)))"

text \<open>The inner loop, over the parts of one message.\<close>

fun partsLoop ::
  "(json \<Rightarrow> exn + BackgroundTaskRow option) \<Rightarrow> json list \<Rightarrow> BackgroundTaskRow list
     \<Rightarrow> exn + BackgroundTaskRow list"
where
  "partsLoop f [] acc = Inr acc"
| "partsLoop f (p # ps) acc =
     (case f p of
        Inl e \<Rightarrow> Inl e
      | Inr None \<Rightarrow> partsLoop f ps acc
      | Inr (Some row) \<Rightarrow> partsLoop f ps (acc @ [row]))"

text \<open>
  The outer loop, over the messages newest first; the test of the cap of 50 rows stands
  after the inner loop.
\<close>

fun messagesLoop ::
  "'a Env_scheme \<Rightarrow> OpenCodeStorageRoots \<Rightarrow> string \<Rightarrow> int \<Rightarrow> json list \<Rightarrow> json list
     \<Rightarrow> BackgroundTaskRow list \<Rightarrow> exn + BackgroundTaskRow list"
where
  "messagesLoop env storage mainSessionId nowMs allSessionMetas [] acc = Inr acc"
| "messagesLoop env storage mainSessionId nowMs allSessionMetas (meta # metas) acc =
     (case created meta of
        None \<Rightarrow> messagesLoop env storage mainSessionId nowMs allSessionMetas metas acc
      | Some startedAt \<Rightarrow>
          (case partsLoop (delegateRow env storage mainSessionId nowMs allSessionMetas startedAt)
                  (readToolPartsForMessage env storage (idString meta)) acc of
             Inl e \<Rightarrow> Inl e
           | Inr acc' \<Rightarrow>
               if length acc' \<ge> 50 then Inr acc'
               else messagesLoop env storage mainSessionId nowMs allSessionMetas metas acc'))"

definition deriveBackgroundTasks ::
  "'a Env_scheme \<Rightarrow> OpenCodeStorageRoots \<Rightarrow> string \<Rightarrow> int \<Rightarrow> exn + BackgroundTaskRow list"
where
  "deriveBackgroundTasks env storage mainSessionId nowMs =
     (let messageDir = getMessageDir env (message storage) mainSessionId;
          metas = readRecentMessageMetas env messageDir 200;
          allSessionMetas = readAllSessionMetas env (session storage);
          ordered = jsSort (\<lambda>a b. createdOr0 b - createdOr0 a) metas
      in messagesLoop env storage mainSessionId nowMs allSessionMetas ordered [])"

section \<open>Normalising a time series for display\<close>

datatype TimeSeriesTone = Muted | Teal | Red | Green

record TimeSeriesSeries =
  seriesId :: string
  label :: string
  tone :: TimeSeriesTone
  "values" :: "int list"

record TimeSeries =
  windowMs :: int
  buckets :: int
  bucketMs :: int
  anchorMs :: int
  serverNowMs :: int
  series :: "TimeSeriesSeries list"

definition TIME_SERIES_DEFAULT_WINDOW_MS :: int where
  "TIME_SERIES_DEFAULT_WINDOW_MS = 300000"

definition TIME_SERIES_DEFAULT_BUCKET_MS :: int where
  "TIME_SERIES_DEFAULT_BUCKET_MS = 2000"

definition TIME_SERIES_DEFAULT_BUCKETS :: int where
  "TIME_SERIES_DEFAULT_BUCKETS = TIME_SERIES_DEFAULT_WINDOW_MS div TIME_SERIES_DEFAULT_BUCKET_MS"

definition TIME_SERIES_SERIES_DEFS :: "(string \<times> string \<times> TimeSeriesTone) list" where
  "TIME_SERIES_SERIES_DEFS =
     [(''overall-main'', ''Overall'', Muted),
      (''agent:sisyphus'', ''Sisyphus'', Teal),
      (''agent:prometheus'', ''Prometheus'', Red),
      (''agent:atlas'', ''Atlas'', Green),
      (''background-total'', ''Background tasks (total)'', Muted)]"

fun toFiniteNumber :: "json \<Rightarrow> int option" where
  "toFiniteNumber (JNum (Fin n)) = Some n"
| "toFiniteNumber _ = None"

text \<open>
  \<open>Number(value)\<close> for a value that is not a number is the conversion of the runtime, the
  parameter \<open>num\<close>. \<open>Math.floor\<close> is the identity on the integers of the model.
\<close>

definition toNonNegativeCount :: "(json \<Rightarrow> jsnum) \<Rightarrow> json \<Rightarrow> int" where
  "toNonNegativeCount num v =
     (let n = (case v of JNum x \<Rightarrow> x | _ \<Rightarrow> num v)
      in case n of Fin k \<Rightarrow> max 0 k | _ \<Rightarrow> 0)"

text \<open>\<open>a ?? b\<close>\<close>

definition nullish :: "json \<Rightarrow> json \<Rightarrow> json" where
  "nullish a b = (if a = JUndefined \<or> a = JNull then b else a)"

text \<open>
  \<open>new Array(n).fill(0)\<close>: a \<open>RangeError\<close> when \<open>n\<close> is not a valid array length.
\<close>

definition zeros :: "int \<Rightarrow> exn + int list" where
  "zeros n = (if 0 \<le> n \<and> n \<le> 4294967295 then Inr (replicate (nat n) 0) else Inl RangeError)"

definition makeZeroTimeSeries ::
  "int option \<Rightarrow> int option \<Rightarrow> int option \<Rightarrow> int option \<Rightarrow> int option \<Rightarrow> exn + TimeSeries"
where
  "makeZeroTimeSeries oWindowMs oBuckets oBucketMs oAnchorMs oServerNowMs =
     (let wMs = max 1 (case oWindowMs of Some w \<Rightarrow> w | None \<Rightarrow> TIME_SERIES_DEFAULT_WINDOW_MS);
          bMs = max 1 (case oBucketMs of Some b \<Rightarrow> b | None \<Rightarrow> TIME_SERIES_DEFAULT_BUCKET_MS);
          derivedBuckets = wMs div bMs;
          bs = max 1 (case oBuckets of
                        Some b \<Rightarrow> b
                      | None \<Rightarrow> if derivedBuckets > 0 then derivedBuckets else TIME_SERIES_DEFAULT_BUCKETS);
          sNow = (case oServerNowMs of Some s \<Rightarrow> s | None \<Rightarrow> 0);
          aMs = (case oAnchorMs of Some a \<Rightarrow> a | None \<Rightarrow> 0)
      in case zeros bs of
           Inl e \<Rightarrow> Inl e
         | Inr vs \<Rightarrow>
             Inr \<lparr>windowMs = wMs, buckets = bs, bucketMs = bMs, anchorMs = aMs, serverNowMs = sNow,
                  series = map (\<lambda>(i, l, t). \<lparr>seriesId = i, label = l, tone = t, values = vs\<rparr>)
                               TIME_SERIES_SERIES_DEFS\<rparr>)"

text \<open>The loop that fills \<open>byId\<close>: the first entry of an id wins.\<close>

definition byIdStep :: "(string \<times> json) list \<Rightarrow> json \<Rightarrow> (string \<times> json) list" where
  "byIdStep byId s =
     (if \<not> truthy s \<or> \<not> isRecord s then byId
      else (case (case getProp s ''id'' of
                    JStr i \<Rightarrow> Some i
                  | _ \<Rightarrow> (case getProp s ''key'' of JStr k \<Rightarrow> Some k | _ \<Rightarrow> None)) of
              None \<Rightarrow> byId
            | Some i \<Rightarrow> if i = [] then byId
                        else if map_of byId i = None then byId @ [(i, s)] else byId))"

text \<open>The function mapped over \<open>TIME_SERIES_SERIES_DEFS\<close>.\<close>

definition normalizeSeries ::
  "(json \<Rightarrow> jsnum) \<Rightarrow> (string \<times> json) list \<Rightarrow> int \<Rightarrow> string \<times> string \<times> TimeSeriesTone
     \<Rightarrow> exn + TimeSeriesSeries"
where
  "normalizeSeries num byId bs def =
     (let found = (case map_of byId (fst def) of Some s \<Rightarrow> s | None \<Rightarrow> JUndefined);
          valuesRaw = (if truthy found \<and> isRecord found then getProp found ''values'' else JNull);
          parsed = (case valuesRaw of JArr vs \<Rightarrow> map (toNonNegativeCount num) vs | _ \<Rightarrow> []);
          trimmed = (if int (length parsed) > bs
                     then drop (nat (int (length parsed) - bs)) parsed else parsed)
      in case (if int (length trimmed) < bs
               then (case zeros (bs - int (length trimmed)) of
                       Inl e \<Rightarrow> Inl e
                     | Inr zs \<Rightarrow> Inr (trimmed @ zs))
               else Inr trimmed) of
           Inl e \<Rightarrow> Inl e
         | Inr padded \<Rightarrow>
             Inr \<lparr>seriesId = fst def, label = fst (snd def), tone = snd (snd def), values = padded\<rparr>)"

fun mapResult :: "('a \<Rightarrow> exn + 'b) \<Rightarrow> 'a list \<Rightarrow> exn + 'b list" where
  "mapResult f [] = Inr []"
| "mapResult f (x # xs) =
     (case f x of
        Inl e \<Rightarrow> Inl e
      | Inr y \<Rightarrow> (case mapResult f xs of Inl e \<Rightarrow> Inl e | Inr ys \<Rightarrow> Inr (y # ys)))"

definition normalizeTimeSeries :: "(json \<Rightarrow> jsnum) \<Rightarrow> json \<Rightarrow> int \<Rightarrow> exn + TimeSeries" where
  "normalizeTimeSeries num inp nowMsFallback =
     (if \<not> truthy inp \<or> \<not> isRecord inp then
        (let bMs = TIME_SERIES_DEFAULT_BUCKET_MS;
             sNow = nowMsFallback;
             aMs = (sNow div bMs) * bMs
         in makeZeroTimeSeries (Some TIME_SERIES_DEFAULT_WINDOW_MS) (Some TIME_SERIES_DEFAULT_BUCKETS)
              (Some bMs) (Some aMs) (Some sNow))
      else
        (let windowMsRaw = toFiniteNumber (nullish (getProp inp ''windowMs'') (getProp inp ''window_ms''));
             bucketsRaw = toFiniteNumber (getProp inp ''buckets'');
             bucketMsRaw = toFiniteNumber (nullish (getProp inp ''bucketMs'') (getProp inp ''bucket_ms''));
             bMs = max 1 (case bucketMsRaw of Some b \<Rightarrow> b | None \<Rightarrow> TIME_SERIES_DEFAULT_BUCKET_MS);
             bucketsFromWindow = (case windowMsRaw of
                                    Some w \<Rightarrow> if w \<noteq> 0 then Some (w div bMs) else None
                                  | None \<Rightarrow> None);
             bs = max 1 (case bucketsRaw of
                           Some b \<Rightarrow> b
                         | None \<Rightarrow> (case bucketsFromWindow of
                                       Some b \<Rightarrow> b
                                     | None \<Rightarrow> TIME_SERIES_DEFAULT_BUCKETS));
             wMs = max 1 (case windowMsRaw of Some w \<Rightarrow> w | None \<Rightarrow> bs * bMs);
             serverNowRaw = toFiniteNumber (nullish (getProp inp ''serverNowMs'') (getProp inp ''server_now_ms''));
             sNow = (case serverNowRaw of Some s \<Rightarrow> s | None \<Rightarrow> nowMsFallback);
             anchorRaw = toFiniteNumber (nullish (getProp inp ''anchorMs'') (getProp inp ''anchor_ms''));
             aMs = (case anchorRaw of Some a \<Rightarrow> a | None \<Rightarrow> (sNow div bMs) * bMs);
             byId = (case getProp inp ''series'' of
                       JArr ss \<Rightarrow> foldl byIdStep [] ss
                     | _ \<Rightarrow> [])
         in case mapResult (normalizeSeries num byId bs) TIME_SERIES_SERIES_DEFS of
              Inl e \<Rightarrow> Inl e
            | Inr sr \<Rightarrow>
                Inr \<lparr>windowMs = wMs, buckets = bs, bucketMs = bMs, anchorMs = aMs,
                     serverNowMs = sNow, series = sr\<rparr>))"

section \<open>The dashboard store\<close>

text \<open>
  The three variables of the closure of \<open>createDashboardStore\<close>. The field
  \<open>computations\<close> is not in the source: it counts the calls of
  \<open>buildDashboardPayload\<close>, so that a recomputation can be observed.
\<close>

record 'p StoreState =
  lastComputedAt :: int
  dirty :: bool
  cached :: "'p option"
  computations :: nat

definition createDashboardStore :: "'p StoreState" where
  "createDashboardStore = \<lparr>lastComputedAt = 0, dirty = True, cached = None, computations = 0\<rparr>"

definition markDirty :: "'p StoreState \<Rightarrow> 'p StoreState" where
  "markDirty st = st\<lparr>dirty := True\<rparr>"

text \<open>
  \<open>getSnapshot\<close>, at the time \<open>now\<close> that \<open>Date.now()\<close> returns; \<open>build\<close> is what
  \<open>buildDashboardPayload\<close> does when it is called at that moment (a payload, or an
  exception that leaves the store as it was).
\<close>

definition getSnapshot ::
  "int \<Rightarrow> int \<Rightarrow> exn + 'p \<Rightarrow> 'p StoreState \<Rightarrow> (exn + 'p) \<times> 'p StoreState"
where
  "getSnapshot pollIntervalMs now build st =
     (if cached st = None \<or> dirty st \<or> now - lastComputedAt st > pollIntervalMs then
        (case build of
           Inl e \<Rightarrow> (Inl e, st\<lparr>computations := computations st + 1\<rparr>)
         | Inr p \<Rightarrow> (Inr p, st\<lparr>cached := Some p, lastComputedAt := now, dirty := False,
                                computations := computations st + 1\<rparr>))
      else (Inr (the (cached st)), st))"

datatype 'p storeEvent = GetSnapshot int "exn + 'p" | FileChanged

fun runStore :: "int \<Rightarrow> 'p storeEvent list \<Rightarrow> 'p StoreState \<Rightarrow> (exn + 'p) list \<times> 'p StoreState" where
  "runStore pollIntervalMs [] st = ([], st)"
| "runStore pollIntervalMs (FileChanged # es) st = runStore pollIntervalMs es (markDirty st)"
| "runStore pollIntervalMs (GetSnapshot now build # es) st =
     (let (r, st1) = getSnapshot pollIntervalMs now build st;
          (rs, st2) = runStore pollIntervalMs es st1
      in (r # rs, st2))"

section \<open>Token usage of the sessions of a pass\<close>





section \<open>The dashboard payload\<close>









definition jsonOfString :: "string option \<Rightarrow> json" where
  "jsonOfString v = (case v of None \<Rightarrow> JNull | Some s \<Rightarrow> JStr s)"

definition jsonOfInt :: "int \<Rightarrow> json" where
  "jsonOfInt n = JNum (Fin n)"


definition countersJson :: "'a TokenUsageTotals_scheme \<Rightarrow> (string \<times> json) list" where
  "countersJson r =
     [(''input'', jsonOfInt (input r)),
      (''output'', jsonOfInt (output r)),
      (''reasoning'', jsonOfInt (reasoning r)),
      (''cacheRead'', jsonOfInt (cacheRead r)),
      (''cacheWrite'', jsonOfInt (cacheWrite r)),
      (''total'', jsonOfInt (total r))]"

definition tokenUsageJson :: "TokenUsagePayload \<Rightarrow> json" where
  "tokenUsageJson u =
     JObj [(''rows'', JArr (map (\<lambda>r. JObj ((''model'', JStr (model r)) # countersJson r)) (rows u))),
           (''totals'', JObj (countersJson (totals u)))]"



text \<open>The scan of the tests, \<open>hasSensitiveKeys\<close>, for a given list of key names.\<close>

fun hasKeyIn :: "string list \<Rightarrow> json \<Rightarrow> bool"
  and someHasKeyIn :: "string list \<Rightarrow> json list \<Rightarrow> bool"
  and entriesHaveKeyIn :: "string list \<Rightarrow> (string \<times> json) list \<Rightarrow> bool"
where
  "hasKeyIn ks (JArr vs) = someHasKeyIn ks vs"
| "hasKeyIn ks (JObj kvs) = entriesHaveKeyIn ks kvs"
| "hasKeyIn ks JUndefined = False"
| "hasKeyIn ks JNull = False"
| "hasKeyIn ks (JBool b) = False"
| "hasKeyIn ks (JNum n) = False"
| "hasKeyIn ks (JStr s) = False"
| "someHasKeyIn ks [] = False"
| "someHasKeyIn ks (v # vs) = (hasKeyIn ks v \<or> someHasKeyIn ks vs)"
| "entriesHaveKeyIn ks [] = False"
| "entriesHaveKeyIn ks (kv # kvs) =
     (fst kv \<in> set ks \<or> hasKeyIn ks (snd kv) \<or> entriesHaveKeyIn ks kvs)"

definition sensitiveKeys :: "string list" where
  "sensitiveKeys = [''prompt'', ''input'', ''output'', ''error'', ''state'']"


section \<open>Notions used in the statements and proofs\<close>










text \<open>
  A comparator is consistent when it orders its arguments totally: the sign of \<open>cmp a b\<close>
  is opposite to that of \<open>cmp b a\<close>, and \<open>\<le> 0\<close> is transitive.
\<close>

definition consistentComparator :: "('a \<Rightarrow> 'a \<Rightarrow> int) \<Rightarrow> bool" where
  "consistentComparator cmp =
     ((\<forall>a b. cmp a b > 0 \<longrightarrow> cmp b a \<le> 0)
      \<and> (\<forall>a b c. cmp a b \<le> 0 \<longrightarrow> cmp b c \<le> 0 \<longrightarrow> cmp a c \<le> 0))"



text \<open>
  The entries of \<open>files\<close> in \<open>readRecentMessageMetas\<close> whose file is read, parses and has a
  string \<open>id\<close>.
\<close>

definition survivors :: "'a FsLike_scheme \<Rightarrow> string \<Rightarrow> nat \<Rightarrow> (string \<times> int) list" where
  "survivors fsLike messageDir maxMessages =
     filter (\<lambda>item. hasStringId (readJsonFile fsLike (pathJoin messageDir (fst item))))
            (recentFiles fsLike messageDir maxMessages)"



section \<open>Concrete inputs\<close>


text \<open>
  The comparison of strings by their characters, which \<open>localeCompare\<close> agrees with on
  the identifiers used below (equal up to one lower-case letter). It stands for the
  parameter \<open>lc\<close> in the concrete evaluations.
\<close>

definition codeUnitCompare :: "string \<Rightarrow> string \<Rightarrow> int" where
  "codeUnitCompare a b = (if a < b then - 1 else if a = b then 0 else 1)"






text \<open>The two candidate sessions of the tie-break test, and an older third one.\<close>

definition sessionMeta :: "string \<Rightarrow> string \<Rightarrow> int \<Rightarrow> json" where
  "sessionMeta i title t =
     JObj [(''id'', JStr i), (''projectID'', JStr ''proj''), (''directory'', JStr ''/tmp/project''),
           (''title'', JStr title), (''parentID'', JStr ''ses_main''),
           (''time'', JObj [(''created'', JNum (Fin t)), (''updated'', JNum (Fin t))])]"


text \<open>
  A message directory with six entries: \<open>a.json\<close> is a message, \<open>b.json\<close> does not parse,
  the \<open>stat\<close> of \<open>c.json\<close> fails, \<open>d.json\<close> has a number for an id, \<open>e.txt\<close> is not a
  JSON file, and \<open>f.json\<close> is the most recent message. No other path exists.
\<close>

definition fsMessages :: FsLike where
  "fsMessages =
     \<lparr>existsSync = (\<lambda>p. p = ''msg/ses''),
      readdirSync = (\<lambda>p. if p = ''msg/ses''
                          then Inr [''a.json'', ''b.json'', ''c.json'', ''d.json'', ''e.txt'', ''f.json'']
                          else Inl FsError),
      isDirectory = (\<lambda>p. p = ''msg/ses''),
      statSync = (\<lambda>p. if p = ''msg/ses/a.json'' then Inr 10
                       else if p = ''msg/ses/b.json'' then Inr 30
                       else if p = ''msg/ses/d.json'' then Inr 20
                       else if p = ''msg/ses/f.json'' then Inr 40
                       else Inl FsError),
      readFileSync = (\<lambda>p. if p = ''msg/ses/a.json'' then Inr (Parsed (JObj [(''id'', JStr ''msg_a'')]))
                           else if p = ''msg/ses/b.json'' then Inr Malformed
                           else if p = ''msg/ses/c.json'' then Inr (Parsed (JObj [(''id'', JStr ''msg_c'')]))
                           else if p = ''msg/ses/d.json'' then Inr (Parsed (JObj [(''id'', JNum (Fin 7))]))
                           else if p = ''msg/ses/f.json'' then Inr (Parsed (JObj [(''id'', JStr ''msg_f'')]))
                           else Inl FsError)\<rparr>"

text \<open>A file system in which every call of \<open>readdirSync\<close>, \<open>statSync\<close> and \<open>readFileSync\<close> throws.\<close>

definition fsBroken :: FsLike where
  "fsBroken =
     \<lparr>existsSync = (\<lambda>p. True),
      readdirSync = (\<lambda>p. Inl FsError),
      isDirectory = (\<lambda>p. False),
      statSync = (\<lambda>p. Inl FsError),
      readFileSync = (\<lambda>p. Inl FsError)\<rparr>"

text \<open>
  An artifact tree with a main session \<open>ses_main\<close> whose one message \<open>m_1\<close>, created at
  \<open>t0\<close>, has the part files \<open>names\<close>, each holding the same background \<open>delegate_task\<close>
  part; and a child session \<open>ses_run\<close>, created 500 ms later and titled after the
  delegation, whose one message, created at \<open>tm\<close>, has one \<open>grep\<close> tool part.
\<close>

definition storage0 :: OpenCodeStorageRoots where
  "storage0 = \<lparr>session = ''ses'', message = ''msg'', part = ''prt''\<rparr>"

definition delegatePart :: json where
  "delegatePart =
     JObj [(''id'', JStr ''part_1''), (''sessionID'', JStr ''ses_main''), (''messageID'', JStr ''m_1''),
           (''type'', JStr ''tool''), (''callID'', JStr ''call_1''), (''tool'', JStr ''delegate_task''),
           (''state'', JObj [(''status'', JStr ''completed''),
                            (''input'', JObj [(''run_in_background'', JBool True),
                                             (''description'', JStr ''Scan repo''),
                                             (''subagent_type'', JStr ''explore''),
                                             (''prompt'', JStr ''secret'')])])]"

definition grepPart :: json where
  "grepPart =
     JObj [(''id'', JStr ''part_g''), (''type'', JStr ''tool''), (''callID'', JStr ''call_g''),
           (''tool'', JStr ''grep''),
           (''state'', JObj [(''status'', JStr ''completed''), (''input'', JObj [])])]"

definition messageMeta :: "string \<Rightarrow> int \<Rightarrow> json" where
  "messageMeta i t =
     JObj [(''id'', JStr i), (''role'', JStr ''assistant''),
           (''time'', JObj [(''created'', JNum (Fin t))])]"

definition isoDemo :: "int \<Rightarrow> string" where
  "isoDemo t = (if t = 985000 then ''1970-01-01T00:16:25.000Z''
                else if t = 990000 then ''1970-01-01T00:16:30.000Z''
                else ''1970-01-01T00:00:00.000Z'')"

definition envScan :: "int \<Rightarrow> int \<Rightarrow> string list \<Rightarrow> Env" where
  "envScan t0 tm names =
     \<lparr>existsSync = (\<lambda>p. p \<in> {''ses'', ''msg/ses_main'', ''prt/m_1'', ''msg/ses_run'', ''prt/m_r''}),
      readdirSync = (\<lambda>p. if p = ''ses'' then Inr [''proj'']
                          else if p = ''ses/proj'' then Inr [''ses_run.json'']
                          else if p = ''msg/ses_main'' then Inr [''m_1.json'']
                          else if p = ''prt/m_1'' then Inr names
                          else if p = ''msg/ses_run'' then Inr [''m_r.json'']
                          else if p = ''prt/m_r'' then Inr [''p1.json'']
                          else Inl FsError),
      isDirectory = (\<lambda>p. p = ''ses/proj''),
      statSync = (\<lambda>p. Inr 5),
      readFileSync = (\<lambda>p. if p = ''ses/proj/ses_run.json''
                             then Inr (Parsed (sessionMeta ''ses_run'' ''Background: Scan repo'' (t0 + 500)))
                           else if p = ''msg/ses_main/m_1.json'' then Inr (Parsed (messageMeta ''m_1'' t0))
                           else if p = ''msg/ses_run/m_r.json'' then Inr (Parsed (messageMeta ''m_r'' tm))
                           else if p = ''prt/m_r/p1.json'' then Inr (Parsed grepPart)
                           else if take 8 p = ''prt/m_1/'' then Inr (Parsed delegatePart)
                           else Inl FsError),
      getMessageDir = pathJoin,
      pickLatestModelString = (\<lambda>ms. None),
      localeCompare = codeUnitCompare,
      toISOString = isoDemo\<rparr>"

text \<open>Fifty-one names of part files.\<close>

definition partNames51 :: "string list" where
  "partNames51 = map (\<lambda>n. ''part_'' @ decimal n @ ''.json'') [0..<51]"

text \<open>The row of the delegation of that tree, with a given status and timeline.\<close>

definition rowScan :: "TaskStatus \<Rightarrow> string \<Rightarrow> BackgroundTaskRow" where
  "rowScan st tline =
     \<lparr>rowId = JStr ''call_1'', description = ''Scan repo'', agent = ''explore'', status = st,
      toolCalls = Some 1, lastTool = Some ''grep'', lastModel = None, timeline = tline,
      sessionId = Some ''ses_run''\<rparr>"

text \<open>
  A time series with three buckets whose series \<open>overall-main\<close> has the single value 5,
  and whose series \<open>agent:atlas\<close> has the four values 1, 2, 3, 4.
\<close>

definition shortSeriesInput :: json where
  "shortSeriesInput =
     JObj [(''windowMs'', JNum (Fin 6000)), (''bucketMs'', JNum (Fin 2000)), (''buckets'', JNum (Fin 3)),
           (''anchorMs'', JNum (Fin 10000)), (''serverNowMs'', JNum (Fin 10500)),
           (''series'', JArr [JObj [(''id'', JStr ''overall-main''),
                                   (''values'', JArr [JNum (Fin 5)])],
                             JObj [(''id'', JStr ''agent:atlas''),
                                   (''values'', JArr [JNum (Fin 1), JNum (Fin 2), JNum (Fin 3),
                                                     JNum (Fin 4)])]])]"

text \<open>The events of a store: reads at given times, and changes of the watched files.\<close>

definition storeEvents :: "string storeEvent list" where
  "storeEvents =
     [GetSnapshot 1000 (Inr ''A''), GetSnapshot 2000 (Inr ''B''), GetSnapshot 3500 (Inr ''C''),
      FileChanged, GetSnapshot 3600 (Inr ''D''), GetSnapshot 3650 (Inr ''E''), FileChanged,
      GetSnapshot 3700 (Inl RangeError), GetSnapshot 3800 (Inr ''F'')]"





section \<open>Sorting\<close>

lemma mset_insertSorted: "mset (insertSorted cmp x ys) = add_mset x (mset ys)"
  by (induction ys) auto

lemma mset_jsSort: "mset (jsSort cmp xs) = mset xs"
  by (induction xs) (auto simp: mset_insertSorted)

lemma set_jsSort: "set (jsSort cmp xs) = set xs"
  using mset_jsSort [of cmp xs] by (metis set_mset_mset)



section \<open>Token usage: the loop and the messages it counts\<close>
















section \<open>Token usage: the total of a message\<close>













section \<open>Token usage: messages without an id\<close>



























section \<open>Sorting with a consistent comparator\<close>

lemma set_insertSorted: "set (insertSorted cmp x ys) = insert x (set ys)"
  using mset_insertSorted [of cmp x ys] by (metis set_mset_add_mset_insert set_mset_mset)

lemma sorted_insertSorted:
  assumes "consistentComparator cmp" "sorted_wrt (\<lambda>a b. cmp a b \<le> 0) ys"
  shows "sorted_wrt (\<lambda>a b. cmp a b \<le> 0) (insertSorted cmp x ys)"
  using assms(2)
proof (induction ys)
  case Nil
  show ?case by simp
next
  case (Cons y ys)
  have total: "\<And>a b. cmp a b > 0 \<Longrightarrow> cmp b a \<le> 0"
    and trans: "\<And>a b c. cmp a b \<le> 0 \<Longrightarrow> cmp b c \<le> 0 \<Longrightarrow> cmp a c \<le> 0"
    using assms(1) unfolding consistentComparator_def by blast+
  show ?case
  proof (cases "cmp x y \<le> 0")
    case True
    then have "\<forall>z \<in> set ys. cmp x z \<le> 0"
      using Cons.prems trans by auto
    then show ?thesis using True Cons.prems by simp
  next
    case False
    then have "cmp y x \<le> 0" using total [of x y] by simp
    then show ?thesis using False Cons by (simp add: set_insertSorted)
  qed
qed

lemma sorted_jsSort:
  "consistentComparator cmp \<Longrightarrow> sorted_wrt (\<lambda>a b. cmp a b \<le> 0) (jsSort cmp xs)"
  by (induction xs) (simp_all add: sorted_insertSorted)




section \<open>The child session of a delegation\<close>







section \<open>The reader of recent messages\<close>

lemma consistent_mtime: "consistentComparator (\<lambda>a b :: string \<times> int. snd b - snd a)"
  by (auto simp: consistentComparator_def)

lemma sorted_recentFiles:
  "sorted_wrt (\<lambda>a b. snd b \<le> snd a) (recentFiles fsLike messageDir maxMessages)"
proof -
  have "sorted_wrt (\<lambda>a b :: string \<times> int. snd b - snd a \<le> 0)
          (jsSort (\<lambda>a b. snd b - snd a)
             (map (\<lambda>f. (f, case statSync fsLike (pathJoin messageDir f) of
                              Inl _ \<Rightarrow> 0 | Inr mtimeMs \<Rightarrow> mtimeMs))
                  (listJsonFiles fsLike messageDir)))"
    by (rule sorted_jsSort [OF consistent_mtime])
  then show ?thesis
    unfolding recentFiles_def by (simp add: sorted_wrt_take)
qed

lemma sorted_survivors:
  "sorted_wrt (\<lambda>a b. snd b \<le> snd a) (survivors fsLike messageDir maxMessages)"
  unfolding survivors_def by (rule sorted_wrt_filter [OF sorted_recentFiles])

lemma length_recentFiles: "length (recentFiles fsLike messageDir maxMessages) \<le> maxMessages"
  by (simp add: recentFiles_def)

lemma length_readRecentMessageMetas:
  "length (readRecentMessageMetas fsLike messageDir maxMessages) \<le> maxMessages"
proof (cases "messageDir = [] \<or> \<not> existsSync fsLike messageDir")
  case True
  then show ?thesis by (auto simp: readRecentMessageMetas_def)
next
  case False
  have "length (filter hasStringId
           (map (\<lambda>item. readJsonFile fsLike (pathJoin messageDir (fst item)))
                (recentFiles fsLike messageDir maxMessages)))
        \<le> length (recentFiles fsLike messageDir maxMessages)"
    by (metis length_filter_le length_map)
  also have "\<dots> \<le> maxMessages" by (rule length_recentFiles)
  finally show ?thesis using False by (simp only: readRecentMessageMetas_def if_False)
qed

lemma readRecent_survivors:
  "messageDir \<noteq> [] \<Longrightarrow> existsSync fsLike messageDir \<Longrightarrow>
   readRecentMessageMetas fsLike messageDir maxMessages =
     map (\<lambda>item. readJsonFile fsLike (pathJoin messageDir (fst item)))
         (survivors fsLike messageDir maxMessages)"
  by (simp add: readRecentMessageMetas_def survivors_def filter_map comp_def)

lemma recentFiles_entry:
  assumes "item \<in> set (recentFiles fsLike messageDir maxMessages)"
  shows "(\<exists>names. readdirSync fsLike messageDir = Inr names \<and> fst item \<in> set names)
         \<and> endsWith (fst item) ''.json''
         \<and> snd item = (case statSync fsLike (pathJoin messageDir (fst item)) of
                          Inl _ \<Rightarrow> 0 | Inr mtimeMs \<Rightarrow> mtimeMs)"
proof -
  from assms have "item \<in> set (map (\<lambda>f. (f, case statSync fsLike (pathJoin messageDir f) of
                              Inl _ \<Rightarrow> 0 | Inr mtimeMs \<Rightarrow> mtimeMs))
                  (listJsonFiles fsLike messageDir))"
    unfolding recentFiles_def using set_jsSort in_set_takeD by fastforce
  then show ?thesis
    by (cases "readdirSync fsLike messageDir") (auto simp: listJsonFiles_def)
qed

lemma hasStringId_readJsonFile:
  assumes "hasStringId (readJsonFile fsLike p)"
  shows "\<exists>v. readFileSync fsLike p = Inr (Parsed v) \<and> truthy v \<and> isString (getProp v ''id'')"
  using assms
  by (auto simp: hasStringId_def readJsonFile_def JSON_parse_def split: sum.splits content.splits)

text \<open>
  C8. The reader of recent messages has no exception among its results: each call of the
  host that can throw (\<open>readdirSync\<close>, \<open>statSync\<close>, \<open>readFileSync\<close>, \<open>JSON.parse\<close>) stands
  in a \<open>try\<close>, and its failure is a branch that yields nothing. For every state of the
  file system it returns the empty list when the directory is missing or cannot be listed;
  otherwise it returns the contents of the listed \<open>.json\<close> files that are read, parse and
  have a string \<open>id\<close>, in the order of their modification times, newest first (a file
  whose \<open>stat\<close> fails counts with time 0), out of the first \<open>maxMessages\<close> files in that
  order, so at most \<open>maxMessages\<close> entries; the engine calls it with 200.
\<close>

theorem recent_reader_skips_orders_caps:
  "(messageDir = [] \<or> \<not> existsSync fsLike messageDir
      \<longrightarrow> readRecentMessageMetas fsLike messageDir maxMessages = [])
   \<and> ((\<exists>e. readdirSync fsLike messageDir = Inl e)
      \<longrightarrow> readRecentMessageMetas fsLike messageDir maxMessages = [])
   \<and> (messageDir \<noteq> [] \<and> existsSync fsLike messageDir
      \<longrightarrow> readRecentMessageMetas fsLike messageDir maxMessages =
           map (\<lambda>item. readJsonFile fsLike (pathJoin messageDir (fst item)))
               (survivors fsLike messageDir maxMessages))
   \<and> sorted_wrt (\<lambda>a b. snd b \<le> snd a) (survivors fsLike messageDir maxMessages)
   \<and> (\<forall>item \<in> set (survivors fsLike messageDir maxMessages).
        (\<exists>names. readdirSync fsLike messageDir = Inr names \<and> fst item \<in> set names)
        \<and> endsWith (fst item) ''.json''
        \<and> snd item = (case statSync fsLike (pathJoin messageDir (fst item)) of
                         Inl _ \<Rightarrow> 0 | Inr mtimeMs \<Rightarrow> mtimeMs)
        \<and> (\<exists>v. readFileSync fsLike (pathJoin messageDir (fst item)) = Inr (Parsed v)
                \<and> truthy v \<and> isString (getProp v ''id'')))
   \<and> (\<forall>meta \<in> set (readRecentMessageMetas fsLike messageDir maxMessages). hasStringId meta)
   \<and> length (readRecentMessageMetas fsLike messageDir maxMessages) \<le> maxMessages"
proof (intro conjI)
  show "messageDir = [] \<or> \<not> existsSync fsLike messageDir
      \<longrightarrow> readRecentMessageMetas fsLike messageDir maxMessages = []"
    by (auto simp: readRecentMessageMetas_def)
  show "(\<exists>e. readdirSync fsLike messageDir = Inl e)
      \<longrightarrow> readRecentMessageMetas fsLike messageDir maxMessages = []"
    by (auto simp: readRecentMessageMetas_def recentFiles_def listJsonFiles_def)
  show "messageDir \<noteq> [] \<and> existsSync fsLike messageDir
      \<longrightarrow> readRecentMessageMetas fsLike messageDir maxMessages =
           map (\<lambda>item. readJsonFile fsLike (pathJoin messageDir (fst item)))
               (survivors fsLike messageDir maxMessages)"
    using readRecent_survivors by blast
  show "sorted_wrt (\<lambda>a b. snd b \<le> snd a) (survivors fsLike messageDir maxMessages)"
    by (rule sorted_survivors)
  show "\<forall>item \<in> set (survivors fsLike messageDir maxMessages).
        (\<exists>names. readdirSync fsLike messageDir = Inr names \<and> fst item \<in> set names)
        \<and> endsWith (fst item) ''.json''
        \<and> snd item = (case statSync fsLike (pathJoin messageDir (fst item)) of
                         Inl _ \<Rightarrow> 0 | Inr mtimeMs \<Rightarrow> mtimeMs)
        \<and> (\<exists>v. readFileSync fsLike (pathJoin messageDir (fst item)) = Inr (Parsed v)
                \<and> truthy v \<and> isString (getProp v ''id''))"
  proof
    fix item
    assume "item \<in> set (survivors fsLike messageDir maxMessages)"
    then have a: "item \<in> set (recentFiles fsLike messageDir maxMessages)"
      and b: "hasStringId (readJsonFile fsLike (pathJoin messageDir (fst item)))"
      by (simp_all add: survivors_def)
    show "(\<exists>names. readdirSync fsLike messageDir = Inr names \<and> fst item \<in> set names)
        \<and> endsWith (fst item) ''.json''
        \<and> snd item = (case statSync fsLike (pathJoin messageDir (fst item)) of
                         Inl _ \<Rightarrow> 0 | Inr mtimeMs \<Rightarrow> mtimeMs)
        \<and> (\<exists>v. readFileSync fsLike (pathJoin messageDir (fst item)) = Inr (Parsed v)
                \<and> truthy v \<and> isString (getProp v ''id''))"
      using recentFiles_entry [OF a] hasStringId_readJsonFile [OF b] by blast
  qed
  show "\<forall>meta \<in> set (readRecentMessageMetas fsLike messageDir maxMessages). hasStringId meta"
    by (simp add: readRecentMessageMetas_def)
  show "length (readRecentMessageMetas fsLike messageDir maxMessages) \<le> maxMessages"
    by (rule length_readRecentMessageMetas)
qed

lemma background_metas_capped: "length (readBackgroundMetas env storage sid) \<le> 200"
  unfolding readBackgroundMetas_def by (rule length_readRecentMessageMetas)

lemmas eval_reader =
  readRecentMessageMetas_def recentFiles_def listJsonFiles_def readJsonFile_def JSON_parse_def
  pathJoin_def endsWith_def hasStringId_def survivors_def

lemma survivors_fsMessages:
  "survivors fsMessages ''msg/ses'' 4 = [(''f.json'', 40), (''a.json'', 10)]"
  by (simp add: fsMessages_def eval_reader)

lemma read_fsMessages:
  "readJsonFile fsMessages (pathJoin ''msg/ses'' ''f.json'') = JObj [(''id'', JStr ''msg_f'')]"
  "readJsonFile fsMessages (pathJoin ''msg/ses'' ''a.json'') = JObj [(''id'', JStr ''msg_a'')]"
  by (simp_all add: fsMessages_def eval_reader)

lemma exists_fsMessages:
  "existsSync fsMessages ''msg/ses''" "\<not> existsSync fsMessages ''msg/none''"
  "readdirSync fsBroken ''msg/ses'' = Inl FsError"
  by (simp_all add: fsMessages_def fsBroken_def)

theorem recent_reader_skips_orders_caps_witness:
  "readRecentMessageMetas fsMessages ''msg/ses'' 4
     = [JObj [(''id'', JStr ''msg_f'')], JObj [(''id'', JStr ''msg_a'')]]
   \<and> survivors fsMessages ''msg/ses'' 4 = [(''f.json'', 40), (''a.json'', 10)]
   \<and> readRecentMessageMetas fsMessages ''msg/none'' 4 = []
   \<and> readRecentMessageMetas fsBroken ''msg/ses'' 4 = []"
  using recent_reader_skips_orders_caps [of "''msg/ses''" fsMessages 4]
        recent_reader_skips_orders_caps [of "''msg/none''" fsMessages 4]
        recent_reader_skips_orders_caps [of "''msg/ses''" fsBroken 4]
  by (simp add: survivors_fsMessages read_fsMessages exists_fsMessages)

section \<open>Background task rows: status and timeline\<close>









section \<open>Evaluating the engine on the concrete artifact tree\<close>

lemmas eval_fs =
  readRecentMessageMetas_def recentFiles_def listJsonFiles_def readJsonFile_def JSON_parse_def
  pathJoin_def endsWith_def hasStringId_def readAllSessionMetas_def readToolPartsForMessage_def
  isToolPart_def

lemmas eval_row =
  delegateRow_def buildRow_def taskStatus_def linked_def findBackgroundSessionId_def
  titledCandidates_def firstId_def sessionCompare_def created_def createdOr0_def idString_def
  formatTimeline_def formatIsoNoMs_def stripMillis_def isDigit_def formatElapsed_def
  readBackgroundModel_def DESCRIPTION_MAX_def AGENT_MAX_def trim_def isSpace_def Let_def

lemma envScan_sel:
  "getMessageDir (envScan t0 tm names) = pathJoin"
  "localeCompare (envScan t0 tm names) = codeUnitCompare"
  by (simp_all add: envScan_def)

lemma messageMeta_sel: "created (messageMeta i t) = Some t" "idString (messageMeta i t) = i"
  by (simp_all add: messageMeta_def created_def idString_def)

lemma main_metas:
  "readRecentMessageMetas (envScan t0 tm names) ''msg/ses_main'' 200 = [messageMeta ''m_1'' t0]"
  by (simp add: envScan_def eval_fs messageMeta_def)

lemma all_sessions:
  "readAllSessionMetas (envScan t0 tm names) ''ses''
     = [sessionMeta ''ses_run'' ''Background: Scan repo'' (t0 + 500)]"
  by (simp add: envScan_def eval_fs sessionMeta_def)

lemma child_parts: "readToolPartsForMessage (envScan t0 tm names) storage0 ''m_r'' = [grepPart]"
  by (simp add: envScan_def eval_fs storage0_def grepPart_def)

lemma child_stats:
  "readBackgroundStats (envScan t0 tm names) storage0 ''ses_run''
     = \<lparr>statToolCalls = 1, statLastTool = Some ''grep'', lastUpdateAt = Some tm\<rparr>"
proof -
  have "readBackgroundMetas (envScan t0 tm names) storage0 ''ses_run'' = [messageMeta ''m_r'' tm]"
    by (simp add: readBackgroundMetas_def envScan_def eval_fs storage0_def messageMeta_def)
  then show ?thesis
    by (simp add: readBackgroundStats_def deriveBackgroundSessionStats_def statsStep_def
        messageMeta_sel child_parts toolName_def grepPart_def)
qed

lemma main_parts:
  assumes "\<forall>n \<in> set names. endsWith n ''.json''"
  shows "readToolPartsForMessage (envScan t0 tm names) storage0 ''m_1''
           = replicate (length names) delegatePart"
proof -
  have r: "readJsonFile (envScan t0 tm names) (pathJoin ''prt/m_1'' f) = delegatePart" for f
    by (simp add: envScan_def readJsonFile_def JSON_parse_def pathJoin_def)
  have l: "listJsonFiles (envScan t0 tm names) ''prt/m_1'' = names"
    using assms by (simp add: envScan_def listJsonFiles_def)
  have t: "isToolPart delegatePart"
    by (simp add: isToolPart_def delegatePart_def)
  have pd: "pathJoin (part storage0) ''m_1'' = ''prt/m_1''"
    by (simp add: storage0_def pathJoin_def)
  have ex: "existsSync (envScan t0 tm names) ''prt/m_1''"
    by (simp add: envScan_def)
  have "readToolPartsForMessage (envScan t0 tm names) storage0 ''m_1''
        = filter isToolPart (map (\<lambda>f. delegatePart) (sort names))"
    unfolding readToolPartsForMessage_def Let_def pd by (simp add: ex l r)
  then show ?thesis using t by (simp add: map_replicate_const)
qed

lemma partsLoop_replicate:
  "f p = Inr (Some r) \<Longrightarrow> partsLoop f (replicate n p) acc = Inr (acc @ replicate n r)"
  by (induction n arbitrary: acc) (simp_all add: replicate_app_Cons_same)


lemma row_epoch:
  "delegateRow (envScan 0 0 names) storage0 ''ses_main'' 1000
     [sessionMeta ''ses_run'' ''Background: Scan repo'' (0 + 500)] 0 delegatePart
   = Inr (Some (rowScan Completed ''1970-01-01T00:00:00Z: 0s''))"
  apply (simp add: eval_row delegatePart_def sessionMeta_def child_stats rowScan_def)
  apply (simp add: envScan_def isoDemo_def decimal.simps)
  done

lemma derive_replicate:
  assumes names: "\<forall>n \<in> set names. endsWith n ''.json''"
      and row: "delegateRow (envScan t0 tm names) storage0 ''ses_main'' nowMs
                  [sessionMeta ''ses_run'' ''Background: Scan repo'' (t0 + 500)] t0 delegatePart
                = Inr (Some r)"
  shows "deriveBackgroundTasks (envScan t0 tm names) storage0 ''ses_main'' nowMs
           = Inr (replicate (length names) r)"
proof -
  have m: "getMessageDir (envScan t0 tm names) (message storage0) ''ses_main'' = ''msg/ses_main''"
    by (simp add: envScan_sel storage0_def pathJoin_def)
  have s: "session storage0 = ''ses''" by (simp add: storage0_def)
  have loop: "partsLoop (delegateRow (envScan t0 tm names) storage0 ''ses_main'' nowMs
                  [sessionMeta ''ses_run'' ''Background: Scan repo'' (t0 + 500)] t0)
                (replicate n delegatePart) [] = Inr (replicate n r)" for n
    using partsLoop_replicate
            [of "delegateRow (envScan t0 tm names) storage0 ''ses_main'' nowMs
                   [sessionMeta ''ses_run'' ''Background: Scan repo'' (t0 + 500)] t0"
                delegatePart r n "[]"] row
    by simp
  show ?thesis
    unfolding deriveBackgroundTasks_def Let_def m s main_metas all_sessions
    by (simp add: messageMeta_sel main_parts [OF names] loop)
qed






section \<open>Background task rows: the cap\<close>

lemma endsWith_json: "endsWith (s @ ''.json'') ''.json''"
  by (simp add: endsWith_def)

lemma partNames51_json: "\<forall>n \<in> set partNames51. endsWith n ''.json''"
  using endsWith_json [of "''part_'' @ decimal n" for n] by (auto simp: partNames51_def)

text \<open>
  C5: the code returns 51 rows for a main session whose one message has 51
  \<open>delegate_task\<close> parts. The test of the cap (\<open>rows.length >= 50\<close>) is made once per
  message, after all the parts of the message have been pushed.
\<close>

theorem cap_exceeded_within_one_message:
  "deriveBackgroundTasks (envScan 0 0 partNames51) storage0 ''ses_main'' 1000
     = Inr (replicate 51 (rowScan Completed ''1970-01-01T00:00:00Z: 0s''))
   \<and> length (replicate 51 (rowScan Completed ''1970-01-01T00:00:00Z: 0s'')) = 51"
  using derive_replicate [of partNames51 0 0 1000, OF partNames51_json row_epoch [of partNames51]]
  by (simp add: partNames51_def)

section \<open>The dashboard store\<close>

text \<open>
  C7. A call of \<open>getSnapshot\<close> calls \<open>buildDashboardPayload\<close> if and only if no snapshot
  is cached, the dirty flag is set, or more than the poll interval has passed since the
  last computation. When it does and the payload is built, the payload is returned and
  cached, the time of computation is set and the dirty flag cleared (when building
  throws, the exception passes through and cache, time and flag stay as they were).
  Otherwise the call returns the cached snapshot and leaves the store unchanged.
\<close>

theorem snapshot_recomputed_iff_stale:
  fixes st :: "'p StoreState" and now pollIntervalMs :: int and build :: "exn + 'p"
  defines "stale \<equiv> (cached st = None \<or> dirty st \<or> now - lastComputedAt st > pollIntervalMs)"
      and "res \<equiv> getSnapshot pollIntervalMs now build st"
  shows "(computations (snd res) = computations st + 1) = stale
       \<and> (computations (snd res) = computations st) = (\<not> stale)
       \<and> (stale \<longrightarrow> (\<forall>p. build = Inr p \<longrightarrow>
              res = (Inr p, st\<lparr>cached := Some p, lastComputedAt := now, dirty := False,
                                computations := computations st + 1\<rparr>)))
       \<and> (stale \<longrightarrow> (\<forall>e. build = Inl e \<longrightarrow>
              fst res = Inl e \<and> cached (snd res) = cached st \<and> dirty (snd res) = dirty st
              \<and> lastComputedAt (snd res) = lastComputedAt st))
       \<and> (\<not> stale \<longrightarrow> res = (Inr (the (cached st)), st) \<and> cached st \<noteq> None)"
  unfolding stale_def res_def getSnapshot_def
  by (cases build) auto

theorem snapshot_recomputed_iff_stale_witness:
  "getSnapshot 2000 1000 (Inr ''A'') createDashboardStore
     = (Inr ''A'', \<lparr>lastComputedAt = 1000, dirty = False, cached = Some ''A'', computations = 1\<rparr>)
   \<and> getSnapshot 2000 2000 (Inr ''B'')
        \<lparr>lastComputedAt = 1000, dirty = False, cached = Some ''A'', computations = 1\<rparr>
     = (Inr ''A'', \<lparr>lastComputedAt = 1000, dirty = False, cached = Some ''A'', computations = 1\<rparr>)
   \<and> fst (runStore 2000 storeEvents createDashboardStore)
     = [Inr ''A'', Inr ''A'', Inr ''C'', Inr ''D'', Inr ''D'', Inl RangeError, Inr ''F'']
   \<and> computations (snd (runStore 2000 storeEvents createDashboardStore)) = 5"
  using snapshot_recomputed_iff_stale
          [where st = "createDashboardStore :: string StoreState" and now = 1000
             and pollIntervalMs = 2000 and build = "Inr ''A''"]
        snapshot_recomputed_iff_stale
          [where st = "\<lparr>lastComputedAt = 1000, dirty = False, cached = Some ''A'', computations = 1\<rparr>"
             and now = 2000 and pollIntervalMs = 2000 and build = "Inr ''B''"]
  by (simp add: createDashboardStore_def storeEvents_def markDirty_def getSnapshot_def)

section \<open>Normalising a time series\<close>

lemma zeros_length: "zeros n = Inr zs \<Longrightarrow> zs = replicate (nat n) 0 \<and> 0 \<le> n"
  by (auto simp: zeros_def split: if_splits)

lemma normalizeSeries_values:
  assumes "normalizeSeries num byId bs def = Inr s" "bs \<ge> 1"
  shows "int (length (values s)) = bs"
    and "\<exists>parsed. values s =
           (if int (length parsed) > bs then drop (nat (int (length parsed) - bs)) parsed
            else parsed @ replicate (nat (bs - int (length parsed))) 0)"
proof -
  define found where "found = (case map_of byId (fst def) of Some s \<Rightarrow> s | None \<Rightarrow> JUndefined)"
  define valuesRaw where
    "valuesRaw = (if truthy found \<and> isRecord found then getProp found ''values'' else JNull)"
  define parsed where
    "parsed = (case valuesRaw of JArr vs \<Rightarrow> map (toNonNegativeCount num) vs | _ \<Rightarrow> [])"
  define trimmed where
    "trimmed = (if int (length parsed) > bs
                then drop (nat (int (length parsed) - bs)) parsed else parsed)"
  have v: "if int (length trimmed) < bs
           then (\<exists>zs. zeros (bs - int (length trimmed)) = Inr zs \<and> values s = trimmed @ zs)
           else values s = trimmed"
    using assms(1)
    unfolding normalizeSeries_def Let_def found_def valuesRaw_def parsed_def trimmed_def
    by (auto split: sum.splits if_splits)
  have lt: "int (length trimmed) \<le> bs"
    using assms(2) by (auto simp: trimmed_def)
  show "int (length (values s)) = bs"
    using v lt by (auto split: if_splits dest!: zeros_length)
  have "values s =
           (if int (length parsed) > bs then drop (nat (int (length parsed) - bs)) parsed
            else parsed @ replicate (nat (bs - int (length parsed))) 0)"
    using v lt assms(2) by (auto simp: trimmed_def split: if_splits dest!: zeros_length)
  then show "\<exists>parsed. values s =
           (if int (length parsed) > bs then drop (nat (int (length parsed) - bs)) parsed
            else parsed @ replicate (nat (bs - int (length parsed))) 0)"
    by blast
qed

lemma mapResult_set:
  "mapResult f xs = Inr ys \<Longrightarrow> y \<in> set ys \<Longrightarrow> \<exists>x \<in> set xs. f x = Inr y"
  by (induction xs arbitrary: ys) (auto split: sum.splits)

lemma makeZero_lengths:
  assumes "makeZeroTimeSeries w b m a n = Inr ts" "s \<in> set (series ts)"
  shows "int (length (values s)) = buckets ts"
proof -
  from assms(1) obtain vs where z: "zeros (buckets ts) = Inr vs"
    and sr: "series ts = map (\<lambda>(i, l, t). \<lparr>seriesId = i, label = l, tone = t, values = vs\<rparr>)
                               TIME_SERIES_SERIES_DEFS"
    unfolding makeZeroTimeSeries_def Let_def by (auto split: sum.splits)
  from assms(2) have "values s = vs" unfolding sr by auto
  then show ?thesis using zeros_length [OF z] by simp
qed

lemma series_length_is_buckets:
  assumes "normalizeTimeSeries num inp nowMsFallback = Inr ts" "s \<in> set (series ts)"
  shows "int (length (values s)) = buckets ts"
proof (cases "\<not> truthy inp \<or> \<not> isRecord inp")
  case True
  then show ?thesis
    using assms makeZero_lengths unfolding normalizeTimeSeries_def Let_def by auto
next
  case False
  from False assms(1) obtain byId where
    m: "mapResult (normalizeSeries num byId (buckets ts)) TIME_SERIES_SERIES_DEFS = Inr (series ts)"
    and b: "buckets ts \<ge> 1"
    unfolding normalizeTimeSeries_def Let_def
    by (auto split: sum.splits)
  from mapResult_set [OF m assms(2)] obtain d where
    "normalizeSeries num byId (buckets ts) d = Inr s" by blast
  from normalizeSeries_values(1) [OF this b] show ?thesis .
qed

text \<open>
  C9: the code at a series with fewer values than buckets. With three buckets, the one
  value 5 of \<open>overall-main\<close> comes out as \<open>[5, 0, 0]\<close>: the zeros are appended after the
  value, which thereby moves from the newest bucket to the oldest (the four values of
  \<open>agent:atlas\<close> are cut to the three newest, \<open>[2, 3, 4]\<close>). Every series of the result
  has exactly \<open>buckets\<close> values.
\<close>

theorem short_series_padded_at_the_end:
  "normalizeTimeSeries num shortSeriesInput 0 =
     Inr \<lparr>windowMs = 6000, buckets = 3, bucketMs = 2000, anchorMs = 10000, serverNowMs = 10500,
          series =
            [\<lparr>seriesId = ''overall-main'', label = ''Overall'', tone = Muted, values = [5, 0, 0]\<rparr>,
             \<lparr>seriesId = ''agent:sisyphus'', label = ''Sisyphus'', tone = Teal, values = [0, 0, 0]\<rparr>,
             \<lparr>seriesId = ''agent:prometheus'', label = ''Prometheus'', tone = Red, values = [0, 0, 0]\<rparr>,
             \<lparr>seriesId = ''agent:atlas'', label = ''Atlas'', tone = Green, values = [2, 3, 4]\<rparr>,
             \<lparr>seriesId = ''background-total'', label = ''Background tasks (total)'', tone = Muted,
               values = [0, 0, 0]\<rparr>]\<rparr>"
  by (simp add: normalizeTimeSeries_def shortSeriesInput_def nullish_def byIdStep_def
      TIME_SERIES_SERIES_DEFS_def normalizeSeries_def toNonNegativeCount_def zeros_def Let_def
      numeral_eq_Suc)

theorem short_series_padded_at_the_end_witness:
  "map values (series (projr (normalizeTimeSeries (\<lambda>v. NaN) shortSeriesInput 0)))
     = [[5, 0, 0], [0, 0, 0], [0, 0, 0], [2, 3, 4], [0, 0, 0]]
   \<and> buckets (projr (normalizeTimeSeries (\<lambda>v. NaN) shortSeriesInput 0)) = 3"
  using short_series_padded_at_the_end [of "\<lambda>v. NaN"] by simp

section \<open>The keys of the dashboard payload\<close>


lemma someHasKeyIn_set: "someHasKeyIn ks vs = (\<exists>v \<in> set vs. hasKeyIn ks v)"
  by (induction vs) auto


lemma hasKeyIn_jsonOfString [simp]: "\<not> hasKeyIn ks (jsonOfString v)"
  by (cases v) (simp_all add: jsonOfString_def)

lemma hasKeyIn_jsonOfInt [simp]: "\<not> hasKeyIn ks (jsonOfInt n)"
  by (simp add: jsonOfInt_def)



lemma tokenUsage_input: "hasKeyIn sensitiveKeys (tokenUsageJson u)"
  by (simp add: tokenUsageJson_def countersJson_def sensitiveKeys_def)











end
